theory Spec2Isabelle
  imports Complex_Main
begin

section \<open>Monthly income-tax withholding, 2025 and 2026 rules\<close>

text \<open>
  A shallow embedding of \<^verbatim>\<open>calculadora_irrf_2025_2026_corrigida.py\<close>.

  Monetary amounts are exact rationals (\<^typ>\<open>rat\<close>): every constant of the source is a
  decimal literal, and the specification describes the arithmetic as exact. A decimal
  literal such as \<open>1412.00\<close> below denotes the fraction \<open>141200 / 10\<^sup>2\<close>. The number of
  dependents is an integer, as in the source's docstrings.

  The calculators return a Python dictionary; it is modelled as a map from the key
  (a string) to a value that is either a text or a number.
\<close>

subsection \<open>Bracket tax engine\<close>

definition calcular_inss :: "rat \<Rightarrow> rat" where
  "calcular_inss salario =
     (if salario \<le> 1412.00 then
        salario * 0.075
      else if salario \<le> 2666.68 then
        (let inss1 = 1412.00 * 0.075;
             inss2 = (salario - 1412.00) * 0.09
         in inss1 + inss2)
      else if salario \<le> 4000.03 then
        (let inss1 = 1412.00 * 0.075;
             inss2 = (2666.68 - 1412.00) * 0.09;
             inss3 = (salario - 2666.68) * 0.12
         in inss1 + inss2 + inss3)
      else if salario \<le> 7786.02 then
        (let inss1 = 1412.00 * 0.075;
             inss2 = (2666.68 - 1412.00) * 0.09;
             inss3 = (4000.03 - 2666.68) * 0.12;
             inss4 = (salario - 4000.03) * 0.14
         in inss1 + inss2 + inss3 + inss4)
      else
        (let inss1 = 1412.00 * 0.075;
             inss2 = (2666.68 - 1412.00) * 0.09;
             inss3 = (4000.03 - 2666.68) * 0.12;
             inss4 = (7786.02 - 4000.03) * 0.14
         in inss1 + inss2 + inss3 + inss4))"

text \<open>
  The bodies of the five branches of \<open>calcular_inss\<close>, each as a function of the salary,
  under names of their own: the formula a branch evaluates can then be applied at a
  salary outside the branch's range.
\<close>

definition inss_faixa_1 :: "rat \<Rightarrow> rat" where
  "inss_faixa_1 salario = salario * 0.075"

definition inss_faixa_2 :: "rat \<Rightarrow> rat" where
  "inss_faixa_2 salario =
     (let inss1 = 1412.00 * 0.075;
          inss2 = (salario - 1412.00) * 0.09
      in inss1 + inss2)"

definition inss_faixa_3 :: "rat \<Rightarrow> rat" where
  "inss_faixa_3 salario =
     (let inss1 = 1412.00 * 0.075;
          inss2 = (2666.68 - 1412.00) * 0.09;
          inss3 = (salario - 2666.68) * 0.12
      in inss1 + inss2 + inss3)"

definition inss_faixa_4 :: "rat \<Rightarrow> rat" where
  "inss_faixa_4 salario =
     (let inss1 = 1412.00 * 0.075;
          inss2 = (2666.68 - 1412.00) * 0.09;
          inss3 = (4000.03 - 2666.68) * 0.12;
          inss4 = (salario - 4000.03) * 0.14
      in inss1 + inss2 + inss3 + inss4)"

definition inss_teto :: "rat \<Rightarrow> rat" where
  "inss_teto salario =
     (let inss1 = 1412.00 * 0.075;
          inss2 = (2666.68 - 1412.00) * 0.09;
          inss3 = (4000.03 - 2666.68) * 0.12;
          inss4 = (7786.02 - 4000.03) * 0.14
      in inss1 + inss2 + inss3 + inss4)"

definition calcular_ir_progressivo :: "rat \<Rightarrow> rat" where
  "calcular_ir_progressivo base =
     (if base \<le> 2259.20 then
        0
      else if base \<le> 2826.65 then
        (base - 2259.20) * 0.075
      else if base \<le> 3751.05 then
        (2826.65 - 2259.20) * 0.075 + (base - 2826.65) * 0.15
      else if base \<le> 4664.68 then
        (2826.65 - 2259.20) * 0.075 + (3751.05 - 2826.65) * 0.15 +
        (base - 3751.05) * 0.225
      else
        (2826.65 - 2259.20) * 0.075 + (3751.05 - 2826.65) * 0.15 +
        (4664.68 - 3751.05) * 0.225 + (base - 4664.68) * 0.275)"

subsection \<open>Reform adjustment\<close>

definition calcular_reducao_reforma_2026 :: "rat \<Rightarrow> rat \<Rightarrow> rat" where
  "calcular_reducao_reforma_2026 base ir_calculado =
     (if base \<le> 5000.00 then
        min 312.89 ir_calculado
      else if base \<le> 7000.00 then
        (let reducao = 1095.11 - (0.156445 * base);
             reducao = max 0 reducao;
             reducao = min reducao ir_calculado
         in reducao)
      else
        0)"

subsection \<open>Result dictionaries\<close>

datatype valor = Texto string | Numero rat

type_synonym resultado = "string \<rightharpoonup> valor"

text \<open>
  \<open>campo r k\<close> reads the number stored under key \<open>k\<close>; it is \<open>None\<close> where Python's
  \<^verbatim>\<open>r[k]\<close> raises \<^verbatim>\<open>KeyError\<close> or where the entry is not a number.
\<close>

definition campo :: "resultado \<Rightarrow> string \<Rightarrow> rat option" where
  "campo r k = (case r k of Some (Numero x) \<Rightarrow> Some x | _ \<Rightarrow> None)"

subsection \<open>Scenario calculators\<close>

text \<open>
  The source gives \<^verbatim>\<open>despesa_saude\<close> and \<^verbatim>\<open>dependentes\<close> the default \<open>0\<close>; here
  both are always passed.
\<close>

definition calcular_ir_2025_completo :: "rat \<Rightarrow> rat \<Rightarrow> rat \<Rightarrow> int \<Rightarrow> resultado" where
  "calcular_ir_2025_completo salario_bruto contribuicao_previdencia despesa_saude dependentes =
     (let inss = calcular_inss salario_bruto;
          base_calculo = salario_bruto - inss - contribuicao_previdencia;
          deducoes = despesa_saude + (of_int dependentes * 189.59);
          base_tributavel = base_calculo - deducoes;
          ir_devido = calcular_ir_progressivo base_tributavel
      in map_of
        [(''tipo'', Texto ''Completa''),
         (''salario_bruto'', Numero salario_bruto),
         (''inss'', Numero inss),
         (''previdencia'', Numero contribuicao_previdencia),
         (''deducoes_legais'', Numero deducoes),
         (''base_calculo'', Numero base_calculo),
         (''base_tributavel'', Numero base_tributavel),
         (''ir_devido'', Numero ir_devido),
         (''reducao'', Numero 0),
         (''ir_final'', Numero ir_devido)])"

definition calcular_ir_2025_simplificado :: "rat \<Rightarrow> rat \<Rightarrow> resultado" where
  "calcular_ir_2025_simplificado salario_bruto contribuicao_previdencia =
     (let inss = calcular_inss salario_bruto;
          base_calculo = salario_bruto - inss - contribuicao_previdencia;
          teto_desconto = 16754.34;
          desconto = base_calculo * 0.20;
          desconto = (if desconto > teto_desconto then teto_desconto else desconto);
          base_tributavel = base_calculo - desconto;
          ir_devido = calcular_ir_progressivo base_tributavel
      in map_of
        [(''tipo'', Texto ''Simplificada''),
         (''salario_bruto'', Numero salario_bruto),
         (''inss'', Numero inss),
         (''previdencia'', Numero contribuicao_previdencia),
         (''desconto_simplificado'', Numero desconto),
         (''base_calculo'', Numero base_calculo),
         (''base_tributavel'', Numero base_tributavel),
         (''ir_devido'', Numero ir_devido),
         (''reducao'', Numero 0),
         (''ir_final'', Numero ir_devido)])"

definition calcular_ir_2026_completo :: "rat \<Rightarrow> rat \<Rightarrow> rat \<Rightarrow> int \<Rightarrow> resultado" where
  "calcular_ir_2026_completo salario_bruto contribuicao_previdencia despesa_saude dependentes =
     (let inss = calcular_inss salario_bruto;
          base_calculo = salario_bruto - inss - contribuicao_previdencia;
          deducoes = despesa_saude + (of_int dependentes * 189.59);
          base_tributavel = base_calculo - deducoes;
          ir_calculado = calcular_ir_progressivo base_tributavel;
          reducao = calcular_reducao_reforma_2026 base_tributavel ir_calculado;
          ir_final = ir_calculado - reducao
      in map_of
        [(''tipo'', Texto ''Completa''),
         (''salario_bruto'', Numero salario_bruto),
         (''inss'', Numero inss),
         (''previdencia'', Numero contribuicao_previdencia),
         (''deducoes_legais'', Numero deducoes),
         (''base_calculo'', Numero base_calculo),
         (''base_tributavel'', Numero base_tributavel),
         (''ir_calculado'', Numero ir_calculado),
         (''reducao'', Numero reducao),
         (''ir_final'', Numero ir_final)])"

definition calcular_ir_2026_simplificado :: "rat \<Rightarrow> rat \<Rightarrow> resultado" where
  "calcular_ir_2026_simplificado salario_bruto contribuicao_previdencia =
     (let inss = calcular_inss salario_bruto;
          base_calculo = salario_bruto - inss - contribuicao_previdencia;
          teto_desconto = 16754.34;
          desconto = base_calculo * 0.20;
          desconto = (if desconto > teto_desconto then teto_desconto else desconto);
          base_tributavel = base_calculo - desconto;
          ir_calculado = calcular_ir_progressivo base_tributavel;
          reducao = calcular_reducao_reforma_2026 base_tributavel ir_calculado;
          ir_final = ir_calculado - reducao
      in map_of
        [(''tipo'', Texto ''Simplificada''),
         (''salario_bruto'', Numero salario_bruto),
         (''inss'', Numero inss),
         (''previdencia'', Numero contribuicao_previdencia),
         (''desconto_simplificado'', Numero desconto),
         (''base_calculo'', Numero base_calculo),
         (''base_tributavel'', Numero base_tributavel),
         (''ir_calculado'', Numero ir_calculado),
         (''reducao'', Numero reducao),
         (''ir_final'', Numero ir_final)])"

section \<open>The bracket functions\<close>

subsection \<open>Contribution (INSS)\<close>

text \<open>
  C5. The contribution is capped at the top boundary: every salary above 7786.02 yields
  the contribution of 7786.02 itself.
\<close>

theorem calcular_inss_teto:
  "7786.02 < s \<Longrightarrow> calcular_inss s = calcular_inss 7786.02"
  by (simp add: calcular_inss_def)

theorem calcular_inss_teto_witness:
  "(7786.02 :: rat) < 9000 \<and> calcular_inss 9000 = calcular_inss 7786.02"
  using calcular_inss_teto [of 9000] by simp

text \<open>
  C9. The contribution has no jump at a tier boundary. \<open>calcular_inss\<close> evaluates the
  branch formulas \<open>inss_faixa_1\<close>, ..., \<open>inss_teto\<close> on the five salary ranges, and at each
  of the boundaries 1412.00, 2666.68, 4000.03 and 7786.02 the formula of the branch at or
  below the boundary and the formula of the branch above it give the same amount.
\<close>

theorem calcular_inss_continuo:
  "calcular_inss s =
     (if s \<le> 1412.00 then inss_faixa_1 s
      else if s \<le> 2666.68 then inss_faixa_2 s
      else if s \<le> 4000.03 then inss_faixa_3 s
      else if s \<le> 7786.02 then inss_faixa_4 s
      else inss_teto s) \<and>
   inss_faixa_1 1412.00 = inss_faixa_2 1412.00 \<and>
   inss_faixa_2 2666.68 = inss_faixa_3 2666.68 \<and>
   inss_faixa_3 4000.03 = inss_faixa_4 4000.03 \<and>
   inss_faixa_4 7786.02 = inss_teto 7786.02"
  by (simp add: calcular_inss_def inss_faixa_1_def inss_faixa_2_def inss_faixa_3_def
      inss_faixa_4_def inss_teto_def Let_def)

text \<open>
  C10. The contribution never decreases when the salary grows.
\<close>

theorem calcular_inss_mono:
  "s1 \<le> s2 \<Longrightarrow> calcular_inss s1 \<le> calcular_inss s2"
  unfolding calcular_inss_def Let_def by (auto simp: field_simps)

theorem calcular_inss_mono_witness:
  "(2000 :: rat) \<le> 9000 \<and> calcular_inss 2000 \<le> calcular_inss 9000"
  using calcular_inss_mono [of 2000 9000] by simp

subsection \<open>Progressive tax\<close>

text \<open>
  C6. The progressive tax of a base of at most 2259.20 is zero; this covers every
  negative base, for which the function returns the number zero as well.
\<close>

theorem calcular_ir_progressivo_isento:
  "base \<le> 2259.20 \<Longrightarrow> calcular_ir_progressivo base = 0"
  by (simp add: calcular_ir_progressivo_def)

theorem calcular_ir_progressivo_isento_witness:
  "(- 350 :: rat) \<le> 2259.20 \<and> calcular_ir_progressivo (- 350) = 0"
  using calcular_ir_progressivo_isento [of "- 350"] by simp

text \<open>
  C7. The progressive tax never decreases when the base grows.
\<close>

theorem calcular_ir_progressivo_mono:
  "b1 \<le> b2 \<Longrightarrow> calcular_ir_progressivo b1 \<le> calcular_ir_progressivo b2"
  unfolding calcular_ir_progressivo_def by (auto simp: field_simps)

theorem calcular_ir_progressivo_mono_witness:
  "(3000 :: rat) \<le> 5000 \<and> calcular_ir_progressivo 3000 \<le> calcular_ir_progressivo 5000"
  using calcular_ir_progressivo_mono [of 3000 5000] by simp

lemma calcular_ir_progressivo_nonneg: "0 \<le> calcular_ir_progressivo b"
  unfolding calcular_ir_progressivo_def by (auto simp: field_simps)

section \<open>The reform rebate\<close>

text \<open>
  C3. The rebate is \<open>min(312.89, t)\<close> for a base of at most 5000.00, the linear phase-out
  \<open>max(0, 1095.11 - 0.156445 * base)\<close> clamped to at most \<open>t\<close> for a base above 5000.00 and
  at most 7000.00, and zero for a base above 7000.00.
\<close>

theorem calcular_reducao_reforma_2026_faixas:
  "(base \<le> 5000.00 \<longrightarrow> calcular_reducao_reforma_2026 base t = min 312.89 t) \<and>
   (5000.00 < base \<and> base \<le> 7000.00 \<longrightarrow>
      calcular_reducao_reforma_2026 base t = min (max 0 (1095.11 - 0.156445 * base)) t) \<and>
   (7000.00 < base \<longrightarrow> calcular_reducao_reforma_2026 base t = 0)"
  by (simp add: calcular_reducao_reforma_2026_def Let_def)

theorem calcular_reducao_reforma_2026_faixas_witness:
  "(4000 :: rat) \<le> 5000.00 \<and> calcular_reducao_reforma_2026 4000 200 = min 312.89 200 \<and>
   (5000.00 :: rat) < 6000 \<and> (6000 :: rat) \<le> 7000.00 \<and>
   calcular_reducao_reforma_2026 6000 500 = min (max 0 (1095.11 - 0.156445 * 6000)) 500 \<and>
   (7000.00 :: rat) < 8000 \<and> calcular_reducao_reforma_2026 8000 500 = 0"
  using calcular_reducao_reforma_2026_faixas [of 4000 200]
    calcular_reducao_reforma_2026_faixas [of 6000 500]
    calcular_reducao_reforma_2026_faixas [of 8000 500]
  by simp

lemma calcular_reducao_reforma_2026_bounds:
  "0 \<le> t \<Longrightarrow>
   0 \<le> calcular_reducao_reforma_2026 b t \<and> calcular_reducao_reforma_2026 b t \<le> t"
  by (simp add: calcular_reducao_reforma_2026_def Let_def)

section \<open>The scenario calculators\<close>

subsection \<open>The tax entries of the four dictionaries\<close>

lemma campos_2025_completo:
  "campo (calcular_ir_2025_completo s p h d) ''ir_final'' =
     Some (calcular_ir_progressivo (s - calcular_inss s - p - (h + of_int d * 189.59)))"
  by (simp add: calcular_ir_2025_completo_def campo_def Let_def)

lemma campos_2026_completo:
  "campo (calcular_ir_2026_completo s p h d) ''ir_calculado'' =
     Some (calcular_ir_progressivo (s - calcular_inss s - p - (h + of_int d * 189.59)))"
  "campo (calcular_ir_2026_completo s p h d) ''reducao'' =
     Some (calcular_reducao_reforma_2026 (s - calcular_inss s - p - (h + of_int d * 189.59))
       (calcular_ir_progressivo (s - calcular_inss s - p - (h + of_int d * 189.59))))"
  "campo (calcular_ir_2026_completo s p h d) ''ir_final'' =
     Some (calcular_ir_progressivo (s - calcular_inss s - p - (h + of_int d * 189.59)) -
       calcular_reducao_reforma_2026 (s - calcular_inss s - p - (h + of_int d * 189.59))
       (calcular_ir_progressivo (s - calcular_inss s - p - (h + of_int d * 189.59))))"
  by (simp_all add: calcular_ir_2026_completo_def campo_def Let_def)

lemma campos_2025_simplificado:
  "campo (calcular_ir_2025_simplificado s p) ''ir_final'' =
     Some (calcular_ir_progressivo
       (s - calcular_inss s - p - min ((s - calcular_inss s - p) * 0.20) 16754.34))"
  by (simp add: calcular_ir_2025_simplificado_def campo_def Let_def min_def)

lemma campos_2026_simplificado:
  "campo (calcular_ir_2026_simplificado s p) ''ir_calculado'' =
     Some (calcular_ir_progressivo
       (s - calcular_inss s - p - min ((s - calcular_inss s - p) * 0.20) 16754.34))"
  "campo (calcular_ir_2026_simplificado s p) ''reducao'' =
     Some (calcular_reducao_reforma_2026
       (s - calcular_inss s - p - min ((s - calcular_inss s - p) * 0.20) 16754.34)
       (calcular_ir_progressivo
         (s - calcular_inss s - p - min ((s - calcular_inss s - p) * 0.20) 16754.34)))"
  "campo (calcular_ir_2026_simplificado s p) ''ir_final'' =
     Some (calcular_ir_progressivo
         (s - calcular_inss s - p - min ((s - calcular_inss s - p) * 0.20) 16754.34) -
       calcular_reducao_reforma_2026
         (s - calcular_inss s - p - min ((s - calcular_inss s - p) * 0.20) 16754.34)
         (calcular_ir_progressivo
           (s - calcular_inss s - p - min ((s - calcular_inss s - p) * 0.20) 16754.34)))"
  by (simp_all add: calcular_ir_2026_simplificado_def campo_def Let_def min_def)

subsection \<open>Bounds on the rebate and the final tax\<close>

text \<open>
  C4. Both 2026 calculators return a rebate between zero and the tax computed before the
  rebate, hence a final tax that is not negative; the progressive tax itself is never
  negative.
\<close>

theorem reducao_2026_limitada:
  "(\<exists>ic red fin.
      campo (calcular_ir_2026_completo s p h d) ''ir_calculado'' = Some ic \<and>
      campo (calcular_ir_2026_completo s p h d) ''reducao'' = Some red \<and>
      campo (calcular_ir_2026_completo s p h d) ''ir_final'' = Some fin \<and>
      0 \<le> red \<and> red \<le> ic \<and> 0 \<le> fin) \<and>
   (\<exists>ic red fin.
      campo (calcular_ir_2026_simplificado s p) ''ir_calculado'' = Some ic \<and>
      campo (calcular_ir_2026_simplificado s p) ''reducao'' = Some red \<and>
      campo (calcular_ir_2026_simplificado s p) ''ir_final'' = Some fin \<and>
      0 \<le> red \<and> red \<le> ic \<and> 0 \<le> fin) \<and>
   0 \<le> calcular_ir_progressivo b"
  using calcular_reducao_reforma_2026_bounds [OF calcular_ir_progressivo_nonneg]
  by (simp add: campos_2026_completo campos_2026_simplificado calcular_ir_progressivo_nonneg)

text \<open>
  C1. For the same arguments the final tax of 2026 is at most the final tax of 2025, with
  the itemized and with the simplified method; and the rebate of any base is not negative
  on any tax the progressive function produces.
\<close>

theorem reforma_nao_aumenta_ir:
  "(\<exists>f26 f25.
      campo (calcular_ir_2026_completo s p h d) ''ir_final'' = Some f26 \<and>
      campo (calcular_ir_2025_completo s p h d) ''ir_final'' = Some f25 \<and>
      f26 \<le> f25) \<and>
   (\<exists>f26 f25.
      campo (calcular_ir_2026_simplificado s p) ''ir_final'' = Some f26 \<and>
      campo (calcular_ir_2025_simplificado s p) ''ir_final'' = Some f25 \<and>
      f26 \<le> f25) \<and>
   0 \<le> calcular_reducao_reforma_2026 base (calcular_ir_progressivo b)"
  using calcular_reducao_reforma_2026_bounds [OF calcular_ir_progressivo_nonneg]
  by (simp add: campos_2026_completo campos_2026_simplificado campos_2025_completo
      campos_2025_simplificado)

subsection \<open>The simplified deduction\<close>

text \<open>
  C8. In both simplified calculators the base is the gross salary less the contribution
  and the pension, the deduction is the smaller of 20% of that base and 16754.34, and the
  progressive tax is computed on the base less the deduction. Where 20% of the base
  exceeds 16754.34, the deduction is 16754.34.
\<close>

theorem desconto_simplificado_teto:
  "(let base_calculo = s - calcular_inss s - p;
        desconto = min (0.20 * base_calculo) 16754.34
    in
      campo (calcular_ir_2025_simplificado s p) ''base_calculo'' = Some base_calculo \<and>
      campo (calcular_ir_2025_simplificado s p) ''desconto_simplificado'' = Some desconto \<and>
      campo (calcular_ir_2025_simplificado s p) ''base_tributavel'' =
        Some (base_calculo - desconto) \<and>
      campo (calcular_ir_2025_simplificado s p) ''ir_devido'' =
        Some (calcular_ir_progressivo (base_calculo - desconto)) \<and>
      campo (calcular_ir_2026_simplificado s p) ''base_calculo'' = Some base_calculo \<and>
      campo (calcular_ir_2026_simplificado s p) ''desconto_simplificado'' = Some desconto \<and>
      campo (calcular_ir_2026_simplificado s p) ''base_tributavel'' =
        Some (base_calculo - desconto) \<and>
      campo (calcular_ir_2026_simplificado s p) ''ir_calculado'' =
        Some (calcular_ir_progressivo (base_calculo - desconto)) \<and>
      (16754.34 < 0.20 * base_calculo \<longrightarrow>
         campo (calcular_ir_2025_simplificado s p) ''desconto_simplificado'' =
           Some 16754.34 \<and>
         campo (calcular_ir_2026_simplificado s p) ''desconto_simplificado'' =
           Some 16754.34))"
  by (simp add: calcular_ir_2025_simplificado_def calcular_ir_2026_simplificado_def Let_def
      campo_def min_def)

theorem desconto_simplificado_teto_witness:
  "(16754.34 :: rat) < 0.20 * (100000 - calcular_inss 100000 - 0) \<and>
   campo (calcular_ir_2025_simplificado 100000 0) ''desconto_simplificado'' = Some 16754.34 \<and>
   campo (calcular_ir_2026_simplificado 100000 0) ''desconto_simplificado'' = Some 16754.34"
  using desconto_simplificado_teto [of 100000 0]
  by (simp add: Let_def calcular_inss_def)

subsection \<open>What the reform changes\<close>

lemma completo_campos_comuns:
  "map (calcular_ir_2026_completo s p h d)
     [''tipo'', ''salario_bruto'', ''inss'', ''previdencia'', ''deducoes_legais'',
      ''base_calculo'', ''base_tributavel''] =
   map (calcular_ir_2025_completo s p h d)
     [''tipo'', ''salario_bruto'', ''inss'', ''previdencia'', ''deducoes_legais'',
      ''base_calculo'', ''base_tributavel'']"
  by (simp add: calcular_ir_2025_completo_def calcular_ir_2026_completo_def Let_def)

lemma completo_chaves_comuns:
  "dom (calcular_ir_2025_completo s p h d) \<inter> dom (calcular_ir_2026_completo s p h d) =
   {''tipo'', ''salario_bruto'', ''inss'', ''previdencia'', ''deducoes_legais'',
    ''base_calculo'', ''base_tributavel'', ''reducao'', ''ir_final''}"
  by (simp add: calcular_ir_2025_completo_def calcular_ir_2026_completo_def Let_def
      dom_map_of_conv_image_fst)

lemma simplificado_campos_comuns:
  "map (calcular_ir_2026_simplificado s p)
     [''tipo'', ''salario_bruto'', ''inss'', ''previdencia'', ''desconto_simplificado'',
      ''base_calculo'', ''base_tributavel''] =
   map (calcular_ir_2025_simplificado s p)
     [''tipo'', ''salario_bruto'', ''inss'', ''previdencia'', ''desconto_simplificado'',
      ''base_calculo'', ''base_tributavel'']"
  by (simp add: calcular_ir_2025_simplificado_def calcular_ir_2026_simplificado_def Let_def)

lemma simplificado_chaves_comuns:
  "dom (calcular_ir_2025_simplificado s p) \<inter> dom (calcular_ir_2026_simplificado s p) =
   {''tipo'', ''salario_bruto'', ''inss'', ''previdencia'', ''desconto_simplificado'',
    ''base_calculo'', ''base_tributavel'', ''reducao'', ''ir_final''}"
  by (simp add: calcular_ir_2025_simplificado_def calcular_ir_2026_simplificado_def Let_def
      dom_map_of_conv_image_fst)

lemma completo_reducao:
  "calcular_ir_2026_completo s p h d ''ir_calculado'' =
     calcular_ir_2025_completo s p h d ''ir_final'' \<and>
   calcular_ir_2025_completo s p h d ''ir_final'' =
     calcular_ir_2025_completo s p h d ''ir_devido'' \<and>
   (\<exists>t bt.
      campo (calcular_ir_2025_completo s p h d) ''ir_final'' = Some t \<and>
      campo (calcular_ir_2026_completo s p h d) ''base_tributavel'' = Some bt \<and>
      campo (calcular_ir_2025_completo s p h d) ''reducao'' = Some 0 \<and>
      campo (calcular_ir_2026_completo s p h d) ''reducao'' =
        Some (calcular_reducao_reforma_2026 bt t) \<and>
      campo (calcular_ir_2026_completo s p h d) ''ir_final'' =
        Some (t - calcular_reducao_reforma_2026 bt t))"
  by (simp add: calcular_ir_2025_completo_def calcular_ir_2026_completo_def Let_def campo_def)

lemma simplificado_reducao:
  "calcular_ir_2026_simplificado s p ''ir_calculado'' =
     calcular_ir_2025_simplificado s p ''ir_final'' \<and>
   calcular_ir_2025_simplificado s p ''ir_final'' =
     calcular_ir_2025_simplificado s p ''ir_devido'' \<and>
   (\<exists>t bt.
      campo (calcular_ir_2025_simplificado s p) ''ir_final'' = Some t \<and>
      campo (calcular_ir_2026_simplificado s p) ''base_tributavel'' = Some bt \<and>
      campo (calcular_ir_2025_simplificado s p) ''reducao'' = Some 0 \<and>
      campo (calcular_ir_2026_simplificado s p) ''reducao'' =
        Some (calcular_reducao_reforma_2026 bt t) \<and>
      campo (calcular_ir_2026_simplificado s p) ''ir_final'' =
        Some (t - calcular_reducao_reforma_2026 bt t))"
  by (simp add: calcular_ir_2025_simplificado_def calcular_ir_2026_simplificado_def Let_def
      campo_def)

text \<open>
  C2. A 2026 calculator differs from its 2025 counterpart by the rebate alone. The tax
  before the rebate (\<open>ir_calculado\<close>) is the 2025 final tax, which is the 2025 \<open>ir_devido\<close>;
  the rebate entry is zero in 2025 and the reform rebate of the taxable base and that tax
  in 2026; the 2026 final tax is the 2025 final tax less the rebate. The two dictionaries
  share nine keys, and under the seven other than \<open>reducao\<close> and \<open>ir_final\<close> they hold the
  same values. This holds for the itemized pair and for the simplified pair.
\<close>

theorem reforma_so_altera_reducao:
  "(calcular_ir_2026_completo s p h d ''ir_calculado'' =
      calcular_ir_2025_completo s p h d ''ir_final'' \<and>
    calcular_ir_2025_completo s p h d ''ir_final'' =
      calcular_ir_2025_completo s p h d ''ir_devido'' \<and>
    (\<exists>t bt.
       campo (calcular_ir_2025_completo s p h d) ''ir_final'' = Some t \<and>
       campo (calcular_ir_2026_completo s p h d) ''base_tributavel'' = Some bt \<and>
       campo (calcular_ir_2025_completo s p h d) ''reducao'' = Some 0 \<and>
       campo (calcular_ir_2026_completo s p h d) ''reducao'' =
         Some (calcular_reducao_reforma_2026 bt t) \<and>
       campo (calcular_ir_2026_completo s p h d) ''ir_final'' =
         Some (t - calcular_reducao_reforma_2026 bt t))) \<and>
   map (calcular_ir_2026_completo s p h d)
     [''tipo'', ''salario_bruto'', ''inss'', ''previdencia'', ''deducoes_legais'',
      ''base_calculo'', ''base_tributavel''] =
   map (calcular_ir_2025_completo s p h d)
     [''tipo'', ''salario_bruto'', ''inss'', ''previdencia'', ''deducoes_legais'',
      ''base_calculo'', ''base_tributavel''] \<and>
   dom (calcular_ir_2025_completo s p h d) \<inter> dom (calcular_ir_2026_completo s p h d) =
     {''tipo'', ''salario_bruto'', ''inss'', ''previdencia'', ''deducoes_legais'',
      ''base_calculo'', ''base_tributavel'', ''reducao'', ''ir_final''} \<and>
   (calcular_ir_2026_simplificado s p ''ir_calculado'' =
      calcular_ir_2025_simplificado s p ''ir_final'' \<and>
    calcular_ir_2025_simplificado s p ''ir_final'' =
      calcular_ir_2025_simplificado s p ''ir_devido'' \<and>
    (\<exists>t bt.
       campo (calcular_ir_2025_simplificado s p) ''ir_final'' = Some t \<and>
       campo (calcular_ir_2026_simplificado s p) ''base_tributavel'' = Some bt \<and>
       campo (calcular_ir_2025_simplificado s p) ''reducao'' = Some 0 \<and>
       campo (calcular_ir_2026_simplificado s p) ''reducao'' =
         Some (calcular_reducao_reforma_2026 bt t) \<and>
       campo (calcular_ir_2026_simplificado s p) ''ir_final'' =
         Some (t - calcular_reducao_reforma_2026 bt t))) \<and>
   map (calcular_ir_2026_simplificado s p)
     [''tipo'', ''salario_bruto'', ''inss'', ''previdencia'', ''desconto_simplificado'',
      ''base_calculo'', ''base_tributavel''] =
   map (calcular_ir_2025_simplificado s p)
     [''tipo'', ''salario_bruto'', ''inss'', ''previdencia'', ''desconto_simplificado'',
      ''base_calculo'', ''base_tributavel''] \<and>
   dom (calcular_ir_2025_simplificado s p) \<inter> dom (calcular_ir_2026_simplificado s p) =
     {''tipo'', ''salario_bruto'', ''inss'', ''previdencia'', ''desconto_simplificado'',
      ''base_calculo'', ''base_tributavel'', ''reducao'', ''ir_final''}"
  by (rule conjI [OF completo_reducao conjI [OF completo_campos_comuns
        conjI [OF completo_chaves_comuns conjI [OF simplificado_reducao
        conjI [OF simplificado_campos_comuns simplificado_chaves_comuns]]]]])

end
